theory Spec2Isabelle
  imports Complex_Main "HOL-Library.AList" "HOL-Library.Multiset"
begin

section \<open>Conventions of the embedding\<close>

text \<open>
  The Python sources are embedded as pure functions with the object state passed
  explicitly. A \<open>dict\<close> whose values are iterated is an association list in insertion
  order (\<open>d[k] = v\<close> is \<^const>\<open>AList.update\<close>: an existing key keeps its position, a new
  key is appended). Exceptions are values of \<open>py_error\<close>. A method that mutates its
  object returns the object as it is left behind, also when it raises.

  The numbers kept in the scorer's tables and the relevance scores of content blocks,
  both validated to lie in a finite range, are real numbers, and the arithmetic on
  them is exact. The floats that \<open>score_content\<close> computes with, which may be infinite
  or NaN, have a type of their own, with the rounding explicit. A \<open>datetime\<close> is an
  integer number of microseconds; the wall clock \<open>datetime.utcnow()\<close> is a parameter \<open>now\<close>.
  Calls to the logger \<open>log\<close> have no effect on the modelled state and are left out.
\<close>

datatype py_error =
    ValueError string
  | ZeroDivisionError
  | KeyError string
  | ValidationError string
  | TypeError string
  | OverflowError

section \<open>Python floats\<close>

text \<open>
  The arguments and results of \<open>score_content\<close> are Python floats: a finite number, an
  infinity or NaN (the two zeros are not told apart; no operation of the scorer
  distinguishes them). An operation on finite floats rounds its exact result to a
  nearest float. That rounding belongs to the platform's binary64 arithmetic and is a
  parameter \<open>rnd\<close> here: \<open>rnd x\<close> is the float that the real number \<open>x\<close> rounds to, and
  \<open>None\<close> when \<open>x\<close> is too large in magnitude for a float. A float operation then gives
  an infinity, and the true division of two \<open>int\<close>s raises \<open>OverflowError\<close>. Nothing is
  assumed of \<open>rnd\<close>: what is proved holds for every rounding.
\<close>

datatype pyfloat = Finite real | PosInf | NegInf | NaN

type_synonym rounding = "real \<Rightarrow> real option"

definition fl :: "rounding \<Rightarrow> real \<Rightarrow> pyfloat" where
  "fl rnd x = (case rnd x of Some y \<Rightarrow> Finite y | None \<Rightarrow> if x < 0 then NegInf else PosInf)"

text \<open>A float literal, and a number read from one of the scorer's tables.\<close>

definition lit :: "rounding \<Rightarrow> real \<Rightarrow> pyfloat" where
  "lit rnd x = fl rnd x"

fun fneg :: "pyfloat \<Rightarrow> pyfloat" where
  "fneg (Finite x) = Finite (- x)"
| "fneg PosInf = NegInf"
| "fneg NegInf = PosInf"
| "fneg NaN = NaN"

fun fadd :: "rounding \<Rightarrow> pyfloat \<Rightarrow> pyfloat \<Rightarrow> pyfloat" where
  "fadd rnd (Finite x) (Finite y) = fl rnd (x + y)"
| "fadd rnd NaN b = NaN"
| "fadd rnd a NaN = NaN"
| "fadd rnd PosInf NegInf = NaN"
| "fadd rnd NegInf PosInf = NaN"
| "fadd rnd PosInf b = PosInf"
| "fadd rnd NegInf b = NegInf"
| "fadd rnd a PosInf = PosInf"
| "fadd rnd a NegInf = NegInf"

definition fsub :: "rounding \<Rightarrow> pyfloat \<Rightarrow> pyfloat \<Rightarrow> pyfloat" where
  "fsub rnd a b = fadd rnd a (fneg b)"

fun fmul :: "rounding \<Rightarrow> pyfloat \<Rightarrow> pyfloat \<Rightarrow> pyfloat" where
  "fmul rnd (Finite x) (Finite y) = fl rnd (x * y)"
| "fmul rnd NaN b = NaN"
| "fmul rnd a NaN = NaN"
| "fmul rnd PosInf (Finite y) = (if y = 0 then NaN else if y < 0 then NegInf else PosInf)"
| "fmul rnd NegInf (Finite y) = (if y = 0 then NaN else if y < 0 then PosInf else NegInf)"
| "fmul rnd (Finite x) PosInf = (if x = 0 then NaN else if x < 0 then NegInf else PosInf)"
| "fmul rnd (Finite x) NegInf = (if x = 0 then NaN else if x < 0 then PosInf else NegInf)"
| "fmul rnd PosInf PosInf = PosInf"
| "fmul rnd PosInf NegInf = NegInf"
| "fmul rnd NegInf PosInf = NegInf"
| "fmul rnd NegInf NegInf = PosInf"

text \<open>\<open>a < b\<close> and \<open>a >= b\<close>: every comparison with NaN is false.\<close>

fun flt :: "pyfloat \<Rightarrow> pyfloat \<Rightarrow> bool" where
  "flt (Finite x) (Finite y) = (x < y)"
| "flt NaN b = False"
| "flt a NaN = False"
| "flt a NegInf = False"
| "flt NegInf b = True"
| "flt PosInf b = False"
| "flt a PosInf = True"

definition fge :: "pyfloat \<Rightarrow> pyfloat \<Rightarrow> bool" where
  "fge a b = (a \<noteq> NaN \<and> b \<noteq> NaN \<and> \<not> flt a b)"

text \<open>
  The builtins \<open>min(a, b)\<close> and \<open>max(a, b)\<close> keep the first argument unless the second
  is smaller, respectively greater.
\<close>

definition float_min :: "pyfloat \<Rightarrow> pyfloat \<Rightarrow> pyfloat" where
  "float_min a b = (if flt b a then b else a)"

definition float_max :: "pyfloat \<Rightarrow> pyfloat \<Rightarrow> pyfloat" where
  "float_max a b = (if flt a b then b else a)"

text \<open>
  The builtin \<open>sum\<close> starts at the \<open>int\<close> 0, to which the first float is added exactly,
  and adds the others from the left. From Python 3.12 on it also carries a compensation
  \<open>c\<close> for the rounding errors of the partial sums (Neumaier's algorithm), which it adds
  to the total at the end when \<open>c\<close> is finite and not zero. Which of the two the
  interpreter does is the parameter \<open>compensated\<close>.
\<close>

fun fabs :: "pyfloat \<Rightarrow> pyfloat" where
  "fabs (Finite x) = Finite \<bar>x\<bar>"
| "fabs PosInf = PosInf"
| "fabs NegInf = PosInf"
| "fabs NaN = NaN"

fun neumaier :: "rounding \<Rightarrow> pyfloat \<Rightarrow> pyfloat \<Rightarrow> pyfloat list \<Rightarrow> pyfloat" where
  "neumaier rnd f_result c [] =
     (case c of
        Finite y \<Rightarrow> if y \<noteq> 0 then fadd rnd f_result c else f_result
      | _ \<Rightarrow> f_result)"
| "neumaier rnd f_result c (x # xs) =
     (let t = fadd rnd f_result x;
          c' = (if fge (fabs f_result) (fabs x)
                then fadd rnd c (fadd rnd (fsub rnd f_result t) x)
                else fadd rnd c (fadd rnd (fsub rnd x t) f_result))
      in neumaier rnd t c' xs)"

definition py_sum :: "rounding \<Rightarrow> bool \<Rightarrow> pyfloat list \<Rightarrow> pyfloat" where
  "py_sum rnd compensated xs =
     (case xs of
        [] \<Rightarrow> Finite 0
      | x # rest \<Rightarrow>
          if compensated then neumaier rnd x (Finite 0) rest else foldl (fadd rnd) x rest)"

text \<open>\<open>a / b\<close> on two \<open>int\<close>s: the exact quotient, rounded once.\<close>

definition int_truediv :: "rounding \<Rightarrow> int \<Rightarrow> int \<Rightarrow> py_error + pyfloat" where
  "int_truediv rnd a b =
     (if b = 0 then Inl ZeroDivisionError
      else case rnd (real_of_int a / real_of_int b) of
             None \<Rightarrow> Inl OverflowError
           | Some y \<Rightarrow> Inr (Finite y))"

definition py_bind :: "py_error + 'a \<Rightarrow> ('a \<Rightarrow> py_error + 'b) \<Rightarrow> py_error + 'b" where
  "py_bind m f = (case m of Inl e \<Rightarrow> Inl e | Inr v \<Rightarrow> f v)"

section \<open>Quality scorer (src/mcp\_server/quality\_scorer.py)\<close>

datatype ScoringFactors =
    SOURCE_RELIABILITY
  | CONTENT_FRESHNESS
  | RELEVANCE
  | COMPLETENESS
  | ACCURACY
  | CITATION_COUNT
  | USER_FEEDBACK
  | PROCESSING_QUALITY

fun factor_value :: "ScoringFactors \<Rightarrow> string" where
  "factor_value SOURCE_RELIABILITY = ''source_reliability''"
| "factor_value CONTENT_FRESHNESS = ''content_freshness''"
| "factor_value RELEVANCE = ''relevance''"
| "factor_value COMPLETENESS = ''completeness''"
| "factor_value ACCURACY = ''accuracy''"
| "factor_value CITATION_COUNT = ''citation_count''"
| "factor_value USER_FEEDBACK = ''user_feedback''"
| "factor_value PROCESSING_QUALITY = ''processing_quality''"

datatype ContentQuality = LOW | MEDIUM | HIGH | VERIFIED

text \<open>
  \<open>ScoreComponent\<close>; the field \<open>value\<close> is written \<open>value'\<close>. The \<open>reasoning\<close> text is a
  rendering of floats into decimal digits and is not modelled.
\<close>

record ScoreComponent =
  factor :: ScoringFactors
  weight :: pyfloat
  value' :: pyfloat

definition calculate :: "rounding \<Rightarrow> ScoreComponent \<Rightarrow> pyfloat" where
  "calculate rnd c = fmul rnd (value' c) (weight c)"

record QualityScorer =
  factor_weights :: "(ScoringFactors \<times> real) list"
  source_reliability_scores :: "(string \<times> real) list"
  max_freshness_days :: int

definition QualityScorer_init :: QualityScorer where
  "QualityScorer_init =
     \<lparr> factor_weights =
         [(SOURCE_RELIABILITY, 0.25),
          (CONTENT_FRESHNESS, 0.15),
          (RELEVANCE, 0.25),
          (COMPLETENESS, 0.15),
          (ACCURACY, 0.15),
          (CITATION_COUNT, 0.03),
          (USER_FEEDBACK, 0.02)],
       source_reliability_scores =
         [(''memory'', 0.95),
          (''verified_api'', 0.90),
          (''published_research'', 0.85),
          (''news_aggregator'', 0.75),
          (''web_search'', 0.65),
          (''social_media'', 0.40),
          (''user_generated'', 0.50)],
       max_freshness_days = 365 \<rparr>"

subsection \<open>Strings: \<open>str.split()\<close>, \<open>str.lower()\<close>, \<open>str.join\<close>, \<open>in\<close>\<close>

text \<open>
  Strings are lists of 8-bit characters and the text is taken to be ASCII: whitespace
  is what \<open>str.isspace\<close> accepts below code point 128, and \<open>lower\<close> maps \<open>A\<close>..\<open>Z\<close>.
\<close>

definition isspace :: "char \<Rightarrow> bool" where
  "isspace c = (of_char c \<in> {9, 10, 11, 12, 13, 28, 29, 30, 31, 32 :: nat})"

fun split_from :: "string \<Rightarrow> string \<Rightarrow> string list" where
  "split_from cur [] = (if cur = [] then [] else [cur])"
| "split_from cur (c # cs) =
     (if isspace c then (if cur = [] then split_from [] cs else cur # split_from [] cs)
      else split_from (cur @ [c]) cs)"

definition py_split :: "string \<Rightarrow> string list" where
  "py_split s = split_from [] s"

definition lower_char :: "char \<Rightarrow> char" where
  "lower_char c =
     (let n = (of_char c :: nat) in if 65 \<le> n \<and> n \<le> 90 then char_of (n + 32) else c)"

definition py_lower :: "string \<Rightarrow> string" where
  "py_lower s = map lower_char s"

fun py_join :: "string \<Rightarrow> string list \<Rightarrow> string" where
  "py_join sep [] = []"
| "py_join sep [x] = x"
| "py_join sep (x # y # ys) = x @ sep @ py_join sep (y # ys)"

fun py_in :: "string \<Rightarrow> string \<Rightarrow> bool" where
  "py_in t [] = (t = [])"
| "py_in t (c # cs) = (take (length t) (c # cs) = t \<or> py_in t cs)"

fun digit_char :: "nat \<Rightarrow> char" where
  "digit_char n = char_of (48 + n mod 10)"

fun digits_rev :: "nat \<Rightarrow> nat \<Rightarrow> string" where
  "digits_rev 0 n = []"
| "digits_rev (Suc fuel) n =
     (if n < 10 then [digit_char n] else digit_char n # digits_rev fuel (n div 10))"

definition py_str :: "nat \<Rightarrow> string" where
  "py_str n = rev (digits_rev (Suc n) n)"

subsection \<open>Scoring\<close>

definition score_source_reliability :: "QualityScorer \<Rightarrow> string \<Rightarrow> real" where
  "score_source_reliability s source_type =
     (case map_of (source_reliability_scores s) source_type of
        Some v \<Rightarrow> v
      | None \<Rightarrow> 0.5)"

text \<open>\<open>(now - created_at).days\<close>: a \<open>timedelta\<close> is normalised, its \<open>days\<close> is the floor.\<close>

definition days_old :: "int \<Rightarrow> int \<Rightarrow> int" where
  "days_old now created_at = (now - created_at) div 86400000000"

text \<open>
  \<open>_score_freshness\<close>, first as the real number that its formula denotes, which is what
  the order of two scores is read from.
\<close>

definition score_freshness :: "int \<Rightarrow> int \<Rightarrow> real" where
  "score_freshness now created_at =
     (let d = days_old now created_at in
      if d \<le> 30 then 1.0
      else if d \<le> 90 then 0.9
      else if d \<le> 180 then 0.75
      else if d \<le> 365 then 0.5
      else max 0.2 (1.0 - (real_of_int d / (365 * 2))))"

text \<open>
  The same method with its float operations written out, as \<open>score_content\<close> takes its
  value: the literals 1.0, 0.75 and 0.5 are floats, 0.9 and 0.2 are rounded, the age is
  divided as an \<open>int\<close> by an \<open>int\<close>.
\<close>

definition score_freshness_float :: "rounding \<Rightarrow> int \<Rightarrow> int \<Rightarrow> py_error + pyfloat" where
  "score_freshness_float rnd now created_at =
     (let d = days_old now created_at in
      if d \<le> 30 then Inr (Finite 1)
      else if d \<le> 90 then Inr (lit rnd 0.9)
      else if d \<le> 180 then Inr (Finite 0.75)
      else if d \<le> 365 then Inr (Finite 0.5)
      else py_bind (int_truediv rnd d (365 * 2))
             (\<lambda>q. Inr (float_max (lit rnd 0.2) (fsub rnd (Finite 1) q))))"

definition score_completeness :: "rounding \<Rightarrow> string \<Rightarrow> pyfloat \<Rightarrow> py_error + pyfloat" where
  "score_completeness rnd content base_score =
     (let word_count = length (py_split content) in
      py_bind (int_truediv rnd (int word_count) 500)
        (\<lambda>q. let length_score = float_min q (Finite 1)
              in Inr (fadd rnd (fmul rnd length_score (lit rnd 0.3))
                               (fmul rnd base_score (lit rnd 0.7)))))"

definition determine_quality_level :: "rounding \<Rightarrow> pyfloat \<Rightarrow> ContentQuality" where
  "determine_quality_level rnd score =
     (if fge score (lit rnd 0.9) then VERIFIED
      else if fge score (Finite 0.75) then HIGH
      else if fge score (Finite 0.5) then MEDIUM
      else LOW)"

text \<open>
  \<open>self.factor_weights[f]\<close>: a factor missing from the table raises \<open>KeyError\<close>; an entry
  is read as the float of the number stored.
\<close>

definition weight_of :: "rounding \<Rightarrow> QualityScorer \<Rightarrow> ScoringFactors \<Rightarrow> py_error + pyfloat" where
  "weight_of rnd s f =
     (case map_of (factor_weights s) f of
        None \<Rightarrow> Inl (KeyError (factor_value f))
      | Some w \<Rightarrow> Inr (lit rnd w))"

record ScoreResult =
  overall_score :: pyfloat
  quality_level :: ContentQuality
  components :: "ScoreComponent list"

text \<open>
  \<open>score_content\<close>, statement by statement: each component's value is computed, then its
  weight is looked up, in the order of the source, so that the first exception of the
  code is the error of the model.
\<close>

definition score_content ::
  "rounding \<Rightarrow> bool \<Rightarrow> QualityScorer \<Rightarrow> int \<Rightarrow> string \<Rightarrow> string \<Rightarrow> int
     \<Rightarrow> pyfloat \<Rightarrow> pyfloat \<Rightarrow> pyfloat \<Rightarrow> int \<Rightarrow> pyfloat \<Rightarrow> py_error + ScoreResult"
where
  "score_content rnd compensated s now content source_type created_at relevance_score
       completeness_score accuracy_score citation_count user_feedback_score =
     (let source_reliability = lit rnd (score_source_reliability s source_type) in
      py_bind (weight_of rnd s SOURCE_RELIABILITY) (\<lambda>w1.
      py_bind (score_freshness_float rnd now created_at) (\<lambda>freshness.
      py_bind (weight_of rnd s CONTENT_FRESHNESS) (\<lambda>w2.
      py_bind (weight_of rnd s RELEVANCE) (\<lambda>w3.
      py_bind (score_completeness rnd content completeness_score) (\<lambda>completeness.
      py_bind (weight_of rnd s COMPLETENESS) (\<lambda>w4.
      py_bind (weight_of rnd s ACCURACY) (\<lambda>w5.
      py_bind (int_truediv rnd citation_count 10) (\<lambda>tenth.
      let citation_score = float_min tenth (Finite 1) in
      py_bind (weight_of rnd s CITATION_COUNT) (\<lambda>w6.
      py_bind (weight_of rnd s USER_FEEDBACK) (\<lambda>w7.
      let components' =
            [\<lparr>factor = SOURCE_RELIABILITY, weight = w1, value' = source_reliability\<rparr>,
             \<lparr>factor = CONTENT_FRESHNESS, weight = w2, value' = freshness\<rparr>,
             \<lparr>factor = RELEVANCE, weight = w3, value' = relevance_score\<rparr>,
             \<lparr>factor = COMPLETENESS, weight = w4, value' = completeness\<rparr>,
             \<lparr>factor = ACCURACY, weight = w5, value' = accuracy_score\<rparr>,
             \<lparr>factor = CITATION_COUNT, weight = w6, value' = citation_score\<rparr>,
             \<lparr>factor = USER_FEEDBACK, weight = w7, value' = user_feedback_score\<rparr>];
          overall = py_sum rnd compensated (map (calculate rnd) components');
          overall = float_min (float_max overall (Finite 0)) (Finite 1)
      in Inr \<lparr> overall_score = overall,
               quality_level = determine_quality_level rnd overall,
               components = components' \<rparr>)))))))))))"

subsection \<open>Mutators\<close>

text \<open>
  \<open>set_factor_weight\<close>: the range check comes first; then the assignment; then the total
  of the table and the loop dividing every entry by it. With a total of zero the first
  division raises \<open>ZeroDivisionError\<close>, after the assignment and before any entry was
  rewritten.
\<close>

definition set_factor_weight ::
  "ScoringFactors \<Rightarrow> real \<Rightarrow> QualityScorer \<Rightarrow> (py_error + unit) \<times> QualityScorer"
where
  "set_factor_weight f w s =
     (if \<not> (0 \<le> w \<and> w \<le> 1) then (Inl (ValueError ''Weight must be between 0 and 1''), s)
      else
        (let fw = AList.update f w (factor_weights s);
             total = sum_list (map snd fw)
         in if total = 0 then (Inl ZeroDivisionError, s\<lparr>factor_weights := fw\<rparr>)
            else (Inr (), s\<lparr>factor_weights := map (\<lambda>(k, v). (k, v / total)) fw\<rparr>)))"

definition set_source_reliability ::
  "string \<Rightarrow> real \<Rightarrow> QualityScorer \<Rightarrow> (py_error + unit) \<times> QualityScorer"
where
  "set_source_reliability source_type reliability s =
     (if \<not> (0 \<le> reliability \<and> reliability \<le> 1)
      then (Inl (ValueError ''Reliability must be between 0 and 1''), s)
      else (Inr (),
            s\<lparr>source_reliability_scores :=
                AList.update source_type reliability (source_reliability_scores s)\<rparr>))"

text \<open>A client calling \<open>set_factor_weight\<close> repeatedly; the first exception ends the run.\<close>

fun set_factor_weights ::
  "(ScoringFactors \<times> real) list \<Rightarrow> QualityScorer \<Rightarrow> (py_error + unit) \<times> QualityScorer"
where
  "set_factor_weights [] s = (Inr (), s)"
| "set_factor_weights ((f, w) # rest) s =
     (case set_factor_weight f w s of
        (Inl e, s') \<Rightarrow> (Inl e, s')
      | (Inr u, s') \<Rightarrow> set_factor_weights rest s')"

section \<open>Content router (src/content\_router/router.py)\<close>

datatype RoutingStrategy = MEMORY_FIRST | EXTERNAL_FIRST | BALANCED | MEMORY_ONLY | EXTERNAL_ONLY

text \<open>
  \<open>RoutingStrategy\<close> is a \<open>str\<close> enumeration: a member compares equal to the plain string
  of its value, and is truthy as that string is.
\<close>

fun strategy_value :: "RoutingStrategy \<Rightarrow> string" where
  "strategy_value MEMORY_FIRST = ''memory_first''"
| "strategy_value EXTERNAL_FIRST = ''external_first''"
| "strategy_value BALANCED = ''balanced''"
| "strategy_value MEMORY_ONLY = ''memory_only''"
| "strategy_value EXTERNAL_ONLY = ''external_only''"

record RoutingDecision =
  strategy :: RoutingStrategy
  sources_to_query :: "string list"
  expected_quality :: real
  reasoning :: string

text \<open>The entry of \<open>registered_sources\<close>; the handler is opaque to the router.\<close>

record 'h SourceInfo =
  type :: string
  handler :: 'h
  priority :: int
  registered_at :: int

record SourceMetrics =
  queries_count :: int
  successful_queries :: int
  avg_response_time :: real
  avg_quality_score :: real
  hit_rate :: real

text \<open>The entry appended to \<open>routing_decisions_log\<close>, its keys prefixed with \<open>log_\<close>.\<close>

record LogEntry =
  log_query :: string
  log_strategy :: string
  log_sources :: "string list"
  log_expected_quality :: real
  log_timestamp :: int

record 'h ContentRouter =
  default_strategy :: string
  registered_sources :: "(string \<times> 'h SourceInfo) list"
  source_metrics :: "(string \<times> SourceMetrics) list"
  memory_hit_threshold :: real
  routing_decisions_log :: "LogEntry list"

definition ContentRouter_init :: "string \<Rightarrow> 'h ContentRouter" where
  "ContentRouter_init default_strategy' =
     \<lparr> default_strategy = default_strategy',
       registered_sources = [],
       source_metrics = [],
       memory_hit_threshold = 0.7,
       routing_decisions_log = [] \<rparr>"

definition register_source ::
  "string \<Rightarrow> string \<Rightarrow> 'h \<Rightarrow> int \<Rightarrow> int \<Rightarrow> 'h ContentRouter \<Rightarrow> 'h ContentRouter"
where
  "register_source source_id source_type source_handler priority' now r =
     r\<lparr> registered_sources :=
          AList.update source_id
            \<lparr> type = source_type, handler = source_handler, priority = priority',
              registered_at = now \<rparr>
            (registered_sources r),
        source_metrics :=
          AList.update source_id
            \<lparr> queries_count = 0, successful_queries = 0, avg_response_time = 0.0,
              avg_quality_score = 0.0, hit_rate = 0.0 \<rparr>
            (source_metrics r) \<rparr>"

text \<open>
  \<open>max(candidates, key=...)\<close> returns the first of the maximal items: the running best
  is replaced only by a strictly greater key.
\<close>

fun py_max :: "('a \<Rightarrow> int) \<Rightarrow> 'a \<Rightarrow> 'a list \<Rightarrow> 'a" where
  "py_max key best [] = best"
| "py_max key best (x # xs) = (if key best < key x then py_max key x xs else py_max key best xs)"

definition get_source_by_type :: "'h ContentRouter \<Rightarrow> string \<Rightarrow> string option" where
  "get_source_by_type r source_type =
     (let candidates =
            map (\<lambda>(source_id, info). (source_id, priority info))
              (filter (\<lambda>(source_id, info). type info = source_type) (registered_sources r))
      in case candidates of
           [] \<Rightarrow> None
         | c # cs \<Rightarrow> Some (fst (py_max snd c cs)))"

text \<open>
  \<open>if x: A else: B\<close> on an \<open>Optional[str]\<close>: \<open>None\<close> and the empty string are both
  falsy.
\<close>

definition if_truthy :: "string option \<Rightarrow> (string \<Rightarrow> 'a) \<Rightarrow> 'a \<Rightarrow> 'a" where
  "if_truthy x then_branch else_branch =
     (case x of
        None \<Rightarrow> else_branch
      | Some s \<Rightarrow> if s \<noteq> [] then then_branch s else else_branch)"

definition route_memory_first :: "'h ContentRouter \<Rightarrow> string \<Rightarrow> RoutingDecision" where
  "route_memory_first r query =
     (let memory_source = get_source_by_type r ''memory'';
          reasoning0 = ''Memory-first strategy: '';
          (sources, reasoning') =
            if_truthy memory_source
              (\<lambda>m. let reasoning1 = reasoning0 @ ''querying memory first'';
                        external_source = get_source_by_type r ''web_search''
                    in if_truthy external_source
                         (\<lambda>e. ([m] @ [e], reasoning1 @ '', with web fallback''))
                         ([m], reasoning1))
              (let external_source = get_source_by_type r ''web_search''
               in if_truthy external_source
                    (\<lambda>e. ([e], ''No memory source available, using web search''))
                    ([], reasoning0));
          expected = (if length sources \<ge> 1 then 0.8 else 0.5)
      in \<lparr> strategy = MEMORY_FIRST, sources_to_query = sources,
           expected_quality = expected, reasoning = reasoning' \<rparr>)"

definition route_external_first :: "'h ContentRouter \<Rightarrow> string \<Rightarrow> RoutingDecision" where
  "route_external_first r query =
     (let external_source = get_source_by_type r ''web_search'';
          memory_source = get_source_by_type r ''memory'';
          sources = if_truthy external_source (\<lambda>e. [e]) [];
          sources = if_truthy memory_source (\<lambda>m. sources @ [m]) sources
      in \<lparr> strategy = EXTERNAL_FIRST, sources_to_query = sources,
           expected_quality = (if length sources = 2 then 0.85 else 0.6),
           reasoning = ''External-first strategy: querying '' @ py_str (length sources)
                         @ '' sources'' \<rparr>)"

definition route_balanced :: "'h ContentRouter \<Rightarrow> string \<Rightarrow> RoutingDecision" where
  "route_balanced r query =
     (let sources = map fst (registered_sources r)
      in \<lparr> strategy = BALANCED, sources_to_query = sources,
           expected_quality = 0.9,
           reasoning = ''Balanced strategy: querying all '' @ py_str (length sources)
                         @ '' sources'' \<rparr>)"

definition route_memory_only :: "'h ContentRouter \<Rightarrow> string \<Rightarrow> RoutingDecision" where
  "route_memory_only r query =
     (let memory_source = get_source_by_type r ''memory'';
          sources = if_truthy memory_source (\<lambda>m. [m]) []
      in \<lparr> strategy = MEMORY_ONLY, sources_to_query = sources,
           expected_quality = (if sources \<noteq> [] then 0.75 else 0.0),
           reasoning = ''Memory-only strategy'' \<rparr>)"

definition route_external_only :: "'h ContentRouter \<Rightarrow> string \<Rightarrow> RoutingDecision" where
  "route_external_only r query =
     (let external_source = get_source_by_type r ''web_search'';
          sources = if_truthy external_source (\<lambda>e. [e]) []
      in \<lparr> strategy = EXTERNAL_ONLY, sources_to_query = sources,
           expected_quality = (if sources \<noteq> [] then 0.7 else 0.0),
           reasoning = ''External-only strategy'' \<rparr>)"

definition log_routing_decision ::
  "RoutingDecision \<Rightarrow> string \<Rightarrow> int \<Rightarrow> 'h ContentRouter \<Rightarrow> 'h ContentRouter"
where
  "log_routing_decision decision query now r =
     r\<lparr> routing_decisions_log :=
          routing_decisions_log r @
            [\<lparr> log_query = query,
               log_strategy = strategy_value (strategy decision),
               log_sources = sources_to_query decision,
               log_expected_quality = expected_quality decision,
               log_timestamp = now \<rparr>] \<rparr>"

text \<open>
  \<open>route_request\<close>. The argument \<open>strategy\<close> is \<open>None\<close> or a string (a member of the
  enumeration is the string of its value); \<open>strategy or self.default_strategy\<close> takes the
  default for every falsy argument. The \<open>context\<close> argument is not read by any handler.
\<close>

definition route_request ::
  "'h ContentRouter \<Rightarrow> string \<Rightarrow> string option \<Rightarrow> int
     \<Rightarrow> (py_error + RoutingDecision) \<times> 'h ContentRouter"
where
  "route_request r query strategy_arg now =
     (let strategy' = if_truthy strategy_arg (\<lambda>s. s) (default_strategy r);
          logged = (\<lambda>decision. (Inr decision, log_routing_decision decision query now r))
      in if strategy' = strategy_value MEMORY_FIRST then logged (route_memory_first r query)
         else if strategy' = strategy_value EXTERNAL_FIRST then logged (route_external_first r query)
         else if strategy' = strategy_value BALANCED then logged (route_balanced r query)
         else if strategy' = strategy_value MEMORY_ONLY then logged (route_memory_only r query)
         else if strategy' = strategy_value EXTERNAL_ONLY then logged (route_external_only r query)
         else (Inl (ValueError (''Unknown routing strategy: '' @ strategy')), r))"

section \<open>Synthesis (src/mcp\_protocol.py, src/content\_router/router.py)\<close>

record 'm ContentSource =
  source_id :: string
  source_type :: string
  name :: string
  quality_score :: real
  confidence_score :: real
  last_updated :: int
  metadata :: 'm

record 'm ContentBlock =
  content_id :: string
  source :: "'m ContentSource"
  title :: "string option"
  body :: string
  summary :: "string option"
  keywords' :: "string list"
  relevance_score :: real
  created_at :: int
  updated_at :: int

record Contradiction =
  source1 :: string
  source2 :: string
  description :: string

record 'm SynthesizedContent =
  synthesis_id :: string
  query :: string
  aggregated_content :: string
  sources :: "'m ContentSource list"
  quality_score :: real
  contradictions :: "Contradiction list"
  gaps :: "string list"
  recommendations :: "string list"
  timestamp :: int

text \<open>
  \<open>sorted(content_blocks, key=lambda x: x.relevance_score, reverse=True)\<close> is stable:
  blocks of equal score keep their input order. A stable ascending sort on the negated
  score is the same list.
\<close>

definition aggregate_content :: "'m ContentBlock list \<Rightarrow> string" where
  "aggregate_content content_blocks =
     (if content_blocks = [] then []
      else
        (let sorted_blocks = sort_key (\<lambda>x. - relevance_score x) content_blocks;
             aggregated =
               map (\<lambda>block.
                      (let attribution = [CHR 0x0A] @ ''[Source: '' @ name (source block) @ '']''
                       in body block @ attribution))
                 sorted_blocks
         in py_join [CHR 0x0A, CHR 0x0A] aggregated))"

definition blocks_contradict :: "'m ContentBlock \<Rightarrow> 'm ContentBlock \<Rightarrow> bool" where
  "blocks_contradict block1 block2 = False"

fun contradictions_from :: "'m ContentBlock list \<Rightarrow> Contradiction list" where
  "contradictions_from [] = []"
| "contradictions_from (block1 # rest) =
     map (\<lambda>block2. \<lparr> source1 = name (source block1), source2 = name (source block2),
                      description = ''Potentially conflicting information detected'' \<rparr>)
       (filter (blocks_contradict block1) rest)
     @ contradictions_from rest"

definition find_contradictions :: "'m ContentBlock list \<Rightarrow> Contradiction list" where
  "find_contradictions content_blocks =
     (if length content_blocks \<ge> 2 then contradictions_from content_blocks else [])"

definition identify_gaps :: "'m ContentBlock list \<Rightarrow> string \<Rightarrow> string list" where
  "identify_gaps content_blocks query' =
     (let query_terms = py_split (py_lower query');
          combined_text = py_join '' '' (map (\<lambda>block. py_lower (body block)) content_blocks);
          missing_terms =
            filter (\<lambda>term. length term > 3 \<and> \<not> py_in term combined_text) query_terms;
          gaps1 = (if missing_terms \<noteq> []
                   then [''Missing coverage on: '' @ py_join '', '' missing_terms] else []);
          gaps2 = (if content_blocks = [] then gaps1 @ [''No content available for query'']
                   else if length content_blocks = 1
                   then gaps1 @ [''Only single source available, multiple sources recommended'']
                   else gaps1)
      in gaps2)"

definition generate_recommendations ::
  "'m ContentBlock list \<Rightarrow> Contradiction list \<Rightarrow> string list \<Rightarrow> string list"
where
  "generate_recommendations content_blocks contradictions' gaps' =
     (let r1 = (if contradictions' \<noteq> []
                then [''Verify '' @ py_str (length contradictions')
                        @ '' contradiction(s) between sources'']
                else []);
          r2 = (case gaps' of
                  [] \<Rightarrow> r1
                | g # gs \<Rightarrow> r1 @ [''Additional research needed: '' @ g]);
          r3 = (if length content_blocks < 2
                then r2 @ [''Consult multiple sources for better coverage''] else r2);
          avg_quality =
            (if content_blocks \<noteq> []
             then sum_list (map relevance_score content_blocks) / real (length content_blocks)
             else 0);
          r4 = (if avg_quality < 0.6
                then r3 @ [''Consider re-querying with refined search terms''] else r3)
      in r4)"

text \<open>
  \<open>list(set(block.source for block in content_blocks))\<close>. Building a set hashes each
  element. \<open>ContentSource\<close> is declared as a plain \<open>BaseModel\<close>, not a frozen one: such a
  class compares by its fields and has no \<open>__hash__\<close>, so \<open>set\<close> raises \<open>TypeError\<close> at
  the first source it is given. Only the empty sequence gets through, as the empty list.
\<close>

definition set_of_sources :: "'m ContentSource list \<Rightarrow> py_error + 'm ContentSource list" where
  "set_of_sources xs =
     (case xs of
        [] \<Rightarrow> Inr []
      | x # rest \<Rightarrow>
          Inl (TypeError (''unhashable type: '' @ [CHR 0x27] @ ''ContentSource'' @ [CHR 0x27])))"

text \<open>
  \<open>synthesize_content\<close>. \<open>stamp\<close> is the text of \<open>datetime.utcnow().timestamp()\<close>. The
  constructor of \<open>SynthesizedContent\<close> validates \<open>quality_score\<close> (\<open>ge=0, le=1\<close>) and
  raises a validation error otherwise.
\<close>

definition synthesize_content ::
  "string \<Rightarrow> 'm ContentBlock list \<Rightarrow> string \<Rightarrow> int \<Rightarrow> py_error + 'm SynthesizedContent"
where
  "synthesize_content query' content_blocks stamp now =
     (let synthesis_id' = ''syn_'' @ stamp;
          aggregated_content' = aggregate_content content_blocks
      in case set_of_sources (map source content_blocks) of
           Inl e \<Rightarrow> Inl e
         | Inr sources' \<Rightarrow>
     (let contradictions' = find_contradictions content_blocks;
          gaps' = identify_gaps content_blocks query';
          quality_score' =
            (if content_blocks \<noteq> []
             then sum_list (map relevance_score content_blocks) / real (length content_blocks)
             else 0);
          recommendations' = generate_recommendations content_blocks contradictions' gaps'
      in if 0 \<le> quality_score' \<and> quality_score' \<le> 1
         then Inr \<lparr> synthesis_id = synthesis_id',
                    query = query',
                    aggregated_content = aggregated_content',
                    sources = sources',
                    quality_score = quality_score',
                    contradictions = contradictions',
                    gaps = gaps',
                    recommendations = recommendations',
                    timestamp = now \<rparr>
         else Inl (ValidationError ''quality_score'')))"

section \<open>Properties of the quality scorer\<close>

subsection \<open>Weight table\<close>

lemma sum_list_normalised:
  "sum_list (map (snd \<circ> (\<lambda>(k, v). (k, v / t))) fw) = sum_list (map snd fw) / (t :: real)"
  by (induction fw) (auto simp: add_divide_distrib)

text \<open>
  Whenever the table has a non-zero total after the assignment, \<open>set_factor_weight\<close>
  returns and leaves a table of total 1.
\<close>

lemma set_factor_weight_normalises:
  assumes "0 \<le> w" "w \<le> 1" "sum_list (map snd (AList.update f w (factor_weights s))) \<noteq> 0"
  shows "fst (set_factor_weight f w s) = Inr () \<and>
         sum_list (map snd (factor_weights (snd (set_factor_weight f w s)))) = 1"
  using assms by (simp add: set_factor_weight_def Let_def sum_list_normalised)

lemma set_factor_weight_keys:
  "fst ` set (factor_weights s) \<subseteq> fst ` set (factor_weights (snd (set_factor_weight f w s)))"
proof -
  have "fst ` set (AList.update f w (factor_weights s)) = insert f (fst ` set (factor_weights s))"
    by (simp add: AList.dom_update)
  moreover have "\<And>t fw. fst ` set (map (\<lambda>(k, v). (k, v / t)) fw)
                     = fst ` set (fw :: (ScoringFactors \<times> real) list)"
    by (force simp: image_iff)
  ultimately show ?thesis
    by (simp add: set_factor_weight_def Let_def subset_insertI)
qed

text \<open>
  The seven scored factors are keys of the fresh table, \<open>set_factor_weight\<close> never
  removes a key (lemma \<open>set_factor_weight_keys\<close>), and \<open>set_source_reliability\<close> does
  not touch the table.
\<close>

lemma QualityScorer_init_keys:
  "set [SOURCE_RELIABILITY, CONTENT_FRESHNESS, RELEVANCE, COMPLETENESS, ACCURACY,
      CITATION_COUNT, USER_FEEDBACK] \<subseteq> fst ` set (factor_weights QualityScorer_init)"
  by (simp add: QualityScorer_init_def)

lemma set_source_reliability_weights:
  "factor_weights (snd (set_source_reliability t v s)) = factor_weights s"
  by (simp add: set_source_reliability_def)

text \<open>
  C1. Claimed: for every factor and every weight in \<open>[0, 1]\<close> the call succeeds and the
  table sums to 1 afterwards. The code divides by the total without looking at it.
  Starting from a fresh scorer, six calls set six of the seven weights to 0, each
  returning normally; the table is then 0 everywhere but for \<open>USER_FEEDBACK\<close>, which the
  renormalisation has brought to 1. Setting that one to 0 as well, a weight inside the
  accepted range, makes the total 0: the call raises \<open>ZeroDivisionError\<close> and leaves
  a table of total 0 behind.
\<close>

theorem set_factor_weight_zero_total:
  "set_factor_weights
     [(SOURCE_RELIABILITY, 0), (CONTENT_FRESHNESS, 0), (RELEVANCE, 0), (COMPLETENESS, 0),
      (ACCURACY, 0), (CITATION_COUNT, 0)] QualityScorer_init
     = (Inr (), QualityScorer_init\<lparr>factor_weights :=
          [(SOURCE_RELIABILITY, 0), (CONTENT_FRESHNESS, 0), (RELEVANCE, 0), (COMPLETENESS, 0),
           (ACCURACY, 0), (CITATION_COUNT, 0), (USER_FEEDBACK, 1)]\<rparr>) \<and>
   set_factor_weight USER_FEEDBACK 0
     (QualityScorer_init\<lparr>factor_weights :=
          [(SOURCE_RELIABILITY, 0), (CONTENT_FRESHNESS, 0), (RELEVANCE, 0), (COMPLETENESS, 0),
           (ACCURACY, 0), (CITATION_COUNT, 0), (USER_FEEDBACK, 1)]\<rparr>)
     = (Inl ZeroDivisionError, QualityScorer_init\<lparr>factor_weights :=
          [(SOURCE_RELIABILITY, 0), (CONTENT_FRESHNESS, 0), (RELEVANCE, 0), (COMPLETENESS, 0),
           (ACCURACY, 0), (CITATION_COUNT, 0), (USER_FEEDBACK, 0)]\<rparr>)"
  by (simp add: set_factor_weight_def QualityScorer_init_def Let_def)

text \<open>
  C9. A weight outside \<open>[0, 1]\<close> makes \<open>set_factor_weight\<close> raise \<open>ValueError\<close> with the
  scorer exactly as it was: nothing is assigned and nothing renormalised. A
  reliability outside \<open>[0, 1]\<close> makes \<open>set_source_reliability\<close> raise likewise, with the
  scorer unchanged.
\<close>

theorem mutators_reject_out_of_range_unchanged:
  "(w < 0 \<or> w > 1 \<longrightarrow>
      set_factor_weight f w s = (Inl (ValueError ''Weight must be between 0 and 1''), s)) \<and>
   (v < 0 \<or> v > 1 \<longrightarrow>
      set_source_reliability t v s
        = (Inl (ValueError ''Reliability must be between 0 and 1''), s))"
  by (auto simp: set_factor_weight_def set_source_reliability_def)

theorem mutators_reject_out_of_range_unchanged_witness:
  "((3/2 :: real) < 0 \<or> (3/2 :: real) > 1) \<and>
   set_factor_weight RELEVANCE (3/2) QualityScorer_init
     = (Inl (ValueError ''Weight must be between 0 and 1''), QualityScorer_init) \<and>
   ((-1/10 :: real) < 0 \<or> (-1/10 :: real) > 1) \<and>
   set_source_reliability ''custom'' (-1/10) QualityScorer_init
     = (Inl (ValueError ''Reliability must be between 0 and 1''), QualityScorer_init)"
  using mutators_reject_out_of_range_unchanged
          [of "3/2" RELEVANCE QualityScorer_init "-1/10" "''custom''"]
  by simp

subsection \<open>Freshness\<close>

lemma days_old_antimono: "c1 \<le> c2 \<Longrightarrow> days_old now c2 \<le> days_old now c1"
  unfolding days_old_def by (rule zdiv_mono1) simp_all

lemma score_freshness_by_age:
  assumes "days_old now c2 \<le> days_old now c1"
  shows "score_freshness now c1 \<le> score_freshness now c2"
proof -
  define d1 where "d1 = days_old now c1"
  define d2 where "d2 = days_old now c2"
  have le: "d2 \<le> d1" using assms by (simp add: d1_def d2_def)
  have r: "real_of_int d2 \<le> real_of_int d1" using le by simp
  show ?thesis
    unfolding score_freshness_def Let_def d1_def[symmetric] d2_def[symmetric]
    using le r by (auto simp: max_def divide_simps)
qed

text \<open>
  C3. At one reading of the clock, content created earlier is at least as many whole
  days old, and content that is at least as many whole days old has a freshness score
  that is at most that of the younger: the score never increases with age, through the
  tiers at 30, 90, 180 and 365 days and in the decay beyond.
\<close>

theorem score_freshness_non_increasing:
  "(created_older \<le> created_newer \<longrightarrow>
      days_old now created_newer \<le> days_old now created_older) \<and>
   (days_old now created_newer \<le> days_old now created_older \<longrightarrow>
      score_freshness now created_older \<le> score_freshness now created_newer)"
  using days_old_antimono score_freshness_by_age by blast

theorem score_freshness_non_increasing_witness:
  "(0::int) \<le> 35 * 86400000000 \<and>
   days_old (400 * 86400000000) (35 * 86400000000) \<le> days_old (400 * 86400000000) 0 \<and>
   score_freshness (400 * 86400000000) 0 \<le> score_freshness (400 * 86400000000) (35 * 86400000000)"
  using score_freshness_non_increasing [of 0 "35 * 86400000000" "400 * 86400000000"]
  by simp

subsection \<open>Overall score\<close>

lemma fl_not_nan: "fl rnd x \<noteq> NaN"
  by (simp add: fl_def split: option.splits)

text \<open>The clamp \<open>min(max(x, 0), 1)\<close> brings every float but NaN into the unit interval.\<close>

lemma clamp_in_unit:
  "a \<noteq> NaN \<Longrightarrow>
   \<exists>x. float_min (float_max a (Finite 0)) (Finite 1) = Finite x \<and> 0 \<le> x \<and> x \<le> 1"
  by (cases a) (auto simp: float_min_def float_max_def)

lemma clamp_nan: "float_min (float_max NaN (Finite 0)) (Finite 1) = NaN"
  by (simp add: float_min_def float_max_def)

lemma fadd_finite_not_nan: "a \<noteq> NaN \<Longrightarrow> fadd rnd a (Finite y) \<noteq> NaN"
  by (cases a) (simp_all add: fl_not_nan)

lemma foldl_fadd_not_nan:
  "a \<noteq> NaN \<Longrightarrow> \<forall>p \<in> set ps. \<exists>x. p = Finite x \<Longrightarrow> foldl (fadd rnd) a ps \<noteq> NaN"
proof (induction ps arbitrary: a)
  case Nil
  then show ?case by simp
next
  case (Cons p ps)
  from Cons.prems(2) obtain y where p: "p = Finite y" by auto
  have "fadd rnd a p \<noteq> NaN" unfolding p using Cons.prems(1) by (rule fadd_finite_not_nan)
  moreover have "\<forall>p \<in> set ps. \<exists>x. p = Finite x" using Cons.prems(2) by simp
  ultimately have "foldl (fadd rnd) (fadd rnd a p) ps \<noteq> NaN" by (rule Cons.IH)
  then show ?case by simp
qed

text \<open>A sum of finite floats may overflow to an infinity, but it is never NaN.\<close>

lemma neumaier_not_nan:
  "f \<noteq> NaN \<Longrightarrow> \<forall>p \<in> set ps. \<exists>x. p = Finite x \<Longrightarrow> neumaier rnd f c ps \<noteq> NaN"
proof (induction ps arbitrary: f c)
  case Nil
  then show ?case by (cases c) (simp_all add: fadd_finite_not_nan)
next
  case (Cons p ps)
  from Cons.prems(2) obtain y where p: "p = Finite y" by auto
  have "fadd rnd f p \<noteq> NaN" unfolding p using Cons.prems(1) by (rule fadd_finite_not_nan)
  moreover have "\<forall>p \<in> set ps. \<exists>x. p = Finite x" using Cons.prems(2) by simp
  ultimately show ?case by (simp add: Let_def Cons.IH)
qed

lemma py_sum_finite_not_nan:
  "\<forall>p \<in> set ps. \<exists>x. p = Finite x \<Longrightarrow> py_sum rnd compensated ps \<noteq> NaN"
proof (cases ps)
  case Nil
  then show ?thesis by (simp add: py_sum_def)
next
  case (Cons p rest)
  assume a: "\<forall>p \<in> set ps. \<exists>x. p = Finite x"
  with Cons obtain y where "p = Finite y" by auto
  then have p: "p \<noteq> NaN" by simp
  from a Cons have r: "\<forall>p \<in> set rest. \<exists>x. p = Finite x" by simp
  from p r have "foldl (fadd rnd) p rest \<noteq> NaN" by (rule foldl_fadd_not_nan)
  moreover from p r have "neumaier rnd p (Finite 0) rest \<noteq> NaN" by (rule neumaier_not_nan)
  ultimately show ?thesis using Cons by (simp add: py_sum_def)
qed

text \<open>With the rounding that changes nothing, the float method is the real formula.\<close>

lemma score_freshness_float_exact:
  "score_freshness_float Some now created = Inr (Finite (score_freshness now created))"
  by (simp add: score_freshness_float_def score_freshness_def Let_def lit_def fl_def
        int_truediv_def py_bind_def float_max_def fsub_def max_def)

text \<open>
  C4, as the code has it. Take a scorer whose weight table has the seven scored factors
  (the fresh scorer has them and no method removes a key) and arguments for which the
  three divisions of an \<open>int\<close> by an \<open>int\<close> stay within the floats, so that freshness,
  completeness and \<open>citation_count / 10\<close> have values. Then \<open>score_content\<close> returns.
  Its components are the seven factors in order, each with its weight from the table
  and its value, the citation value being \<open>min(citation_count / 10, 1.0)\<close>. Its overall
  score is the float sum of \<open>value \<times> weight\<close> over the components, with or without
  compensation, clamped by \<open>min(max(sum, 0), 1)\<close>, and the quality level is read from
  it. Whenever that sum is not NaN the overall score lies in \<open>[0, 1]\<close>; and the sum is
  not NaN whenever each of the seven products is finite.
\<close>

theorem score_content_overall_clamped:
  assumes "map_of (factor_weights s) SOURCE_RELIABILITY = Some w1"
    and "map_of (factor_weights s) CONTENT_FRESHNESS = Some w2"
    and "map_of (factor_weights s) RELEVANCE = Some w3"
    and "map_of (factor_weights s) COMPLETENESS = Some w4"
    and "map_of (factor_weights s) ACCURACY = Some w5"
    and "map_of (factor_weights s) CITATION_COUNT = Some w6"
    and "map_of (factor_weights s) USER_FEEDBACK = Some w7"
    and "score_freshness_float rnd now created = Inr fresh"
    and "score_completeness rnd content completeness = Inr compl"
    and "int_truediv rnd citation_count 10 = Inr tenth"
  shows "\<exists>r. score_content rnd compensated s now content stype created relevance
                completeness accuracy citation_count user_feedback = Inr r \<and>
           components r =
             [\<lparr>factor = SOURCE_RELIABILITY, weight = lit rnd w1,
                value' = lit rnd (score_source_reliability s stype)\<rparr>,
              \<lparr>factor = CONTENT_FRESHNESS, weight = lit rnd w2, value' = fresh\<rparr>,
              \<lparr>factor = RELEVANCE, weight = lit rnd w3, value' = relevance\<rparr>,
              \<lparr>factor = COMPLETENESS, weight = lit rnd w4, value' = compl\<rparr>,
              \<lparr>factor = ACCURACY, weight = lit rnd w5, value' = accuracy\<rparr>,
              \<lparr>factor = CITATION_COUNT, weight = lit rnd w6,
                value' = float_min tenth (Finite 1)\<rparr>,
              \<lparr>factor = USER_FEEDBACK, weight = lit rnd w7, value' = user_feedback\<rparr>] \<and>
           overall_score r =
             float_min
               (float_max
                  (py_sum rnd compensated
                     (map (\<lambda>c. fmul rnd (value' c) (weight c)) (components r)))
                  (Finite 0))
               (Finite 1) \<and>
           quality_level r = determine_quality_level rnd (overall_score r) \<and>
           (py_sum rnd compensated
              (map (\<lambda>c. fmul rnd (value' c) (weight c)) (components r)) \<noteq> NaN \<longrightarrow>
              (\<exists>x. overall_score r = Finite x \<and> 0 \<le> x \<and> x \<le> 1)) \<and>
           ((\<forall>c \<in> set (components r). \<exists>x. fmul rnd (value' c) (weight c) = Finite x) \<longrightarrow>
              py_sum rnd compensated
                (map (\<lambda>c. fmul rnd (value' c) (weight c)) (components r)) \<noteq> NaN)"
proof -
  define cs where "cs =
             [\<lparr>factor = SOURCE_RELIABILITY, weight = lit rnd w1,
                value' = lit rnd (score_source_reliability s stype)\<rparr>,
              \<lparr>factor = CONTENT_FRESHNESS, weight = lit rnd w2, value' = fresh\<rparr>,
              \<lparr>factor = RELEVANCE, weight = lit rnd w3, value' = relevance\<rparr>,
              \<lparr>factor = COMPLETENESS, weight = lit rnd w4, value' = compl\<rparr>,
              \<lparr>factor = ACCURACY, weight = lit rnd w5, value' = accuracy\<rparr>,
              \<lparr>factor = CITATION_COUNT, weight = lit rnd w6,
                value' = float_min tenth (Finite 1)\<rparr>,
              \<lparr>factor = USER_FEEDBACK, weight = lit rnd w7, value' = user_feedback\<rparr>]"
  define overall where "overall =
    float_min
      (float_max (py_sum rnd compensated (map (\<lambda>c. fmul rnd (value' c) (weight c)) cs))
         (Finite 0))
      (Finite 1)"
  define r where "r = \<lparr> overall_score = overall,
              quality_level = determine_quality_level rnd overall,
              components = cs \<rparr>"
  have ret: "score_content rnd compensated s now content stype created relevance
               completeness accuracy citation_count user_feedback = Inr r"
    using assms unfolding r_def overall_def cs_def
    by (simp add: score_content_def weight_of_def py_bind_def Let_def calculate_def)
  have c: "components r = cs" by (simp add: r_def)
  have o: "overall_score r =
             float_min
               (float_max
                  (py_sum rnd compensated
                     (map (\<lambda>c. fmul rnd (value' c) (weight c)) (components r)))
                  (Finite 0))
               (Finite 1)"
    unfolding c by (simp add: r_def overall_def)
  have q: "quality_level r = determine_quality_level rnd (overall_score r)"
    by (simp add: r_def)
  have unit: "py_sum rnd compensated
                (map (\<lambda>c. fmul rnd (value' c) (weight c)) (components r)) \<noteq> NaN \<longrightarrow>
              (\<exists>x. overall_score r = Finite x \<and> 0 \<le> x \<and> x \<le> 1)"
    unfolding o using clamp_in_unit by blast
  have fin: "(\<forall>c \<in> set (components r). \<exists>x. fmul rnd (value' c) (weight c) = Finite x) \<longrightarrow>
              py_sum rnd compensated
                (map (\<lambda>c. fmul rnd (value' c) (weight c)) (components r)) \<noteq> NaN"
  proof
    assume "\<forall>c \<in> set (components r). \<exists>x. fmul rnd (value' c) (weight c) = Finite x"
    then have "\<forall>p \<in> set (map (\<lambda>c. fmul rnd (value' c) (weight c)) (components r)).
                 \<exists>x. p = Finite x"
      by auto
    then show "py_sum rnd compensated
                 (map (\<lambda>c. fmul rnd (value' c) (weight c)) (components r)) \<noteq> NaN"
      by (rule py_sum_finite_not_nan)
  qed
  show ?thesis
    by (rule exI[of _ r]) (intro conjI ret c[unfolded cs_def] o q unit fin)
qed

lemma words4: "length (py_split ''four words of text'') = 4"
  by (simp add: py_split_def isspace_def)

theorem score_content_overall_clamped_witness:
  "map_of (factor_weights QualityScorer_init) SOURCE_RELIABILITY = Some (25/100) \<and>
   map_of (factor_weights QualityScorer_init) CONTENT_FRESHNESS = Some (15/100) \<and>
   map_of (factor_weights QualityScorer_init) RELEVANCE = Some (25/100) \<and>
   map_of (factor_weights QualityScorer_init) COMPLETENESS = Some (15/100) \<and>
   map_of (factor_weights QualityScorer_init) ACCURACY = Some (15/100) \<and>
   map_of (factor_weights QualityScorer_init) CITATION_COUNT = Some (3/100) \<and>
   map_of (factor_weights QualityScorer_init) USER_FEEDBACK = Some (2/100) \<and>
   score_freshness_float Some 0 0 = Inr (Finite 1) \<and>
   score_completeness Some ''four words of text'' (Finite (7/10)) = Inr (Finite (1231/2500)) \<and>
   int_truediv Some 10000 10 = Inr (Finite 1000) \<and>
   (\<exists>r. score_content Some False QualityScorer_init 0 ''four words of text''
           ''memory'' 0 (Finite 5) (Finite (7/10)) (Finite (9/10)) 10000 (Finite (1/2)) = Inr r \<and>
        value' (components r ! 5) = Finite 1 \<and>
        overall_score r = Finite 1)"
proof -
  have w: "map_of (factor_weights QualityScorer_init) SOURCE_RELIABILITY = Some (25/100)"
    "map_of (factor_weights QualityScorer_init) CONTENT_FRESHNESS = Some (15/100)"
    "map_of (factor_weights QualityScorer_init) RELEVANCE = Some (25/100)"
    "map_of (factor_weights QualityScorer_init) COMPLETENESS = Some (15/100)"
    "map_of (factor_weights QualityScorer_init) ACCURACY = Some (15/100)"
    "map_of (factor_weights QualityScorer_init) CITATION_COUNT = Some (3/100)"
    "map_of (factor_weights QualityScorer_init) USER_FEEDBACK = Some (2/100)"
    by (simp_all add: QualityScorer_init_def)
  have f: "score_freshness_float Some 0 0 = Inr (Finite 1)"
    by (simp add: score_freshness_float_def days_old_def)
  have c: "score_completeness Some ''four words of text'' (Finite (7/10))
             = Inr (Finite (1231/2500))"
    by (simp add: score_completeness_def words4 int_truediv_def py_bind_def lit_def fl_def
          float_min_def)
  have t: "int_truediv Some 10000 10 = Inr (Finite 1000)"
    by (simp add: int_truediv_def)
  from score_content_overall_clamped
         [OF w f c t, of False "''memory''" "Finite 5" "Finite (9/10)" "Finite (1/2)"]
  obtain r where r: "score_content Some False QualityScorer_init 0 ''four words of text''
           ''memory'' 0 (Finite 5) (Finite (7/10)) (Finite (9/10)) 10000 (Finite (1/2)) = Inr r"
    and cs: "components r =
             [\<lparr>factor = SOURCE_RELIABILITY, weight = lit Some (25/100),
                value' = lit Some (score_source_reliability QualityScorer_init ''memory'')\<rparr>,
              \<lparr>factor = CONTENT_FRESHNESS, weight = lit Some (15/100), value' = Finite 1\<rparr>,
              \<lparr>factor = RELEVANCE, weight = lit Some (25/100), value' = Finite 5\<rparr>,
              \<lparr>factor = COMPLETENESS, weight = lit Some (15/100),
                value' = Finite (1231/2500)\<rparr>,
              \<lparr>factor = ACCURACY, weight = lit Some (15/100), value' = Finite (9/10)\<rparr>,
              \<lparr>factor = CITATION_COUNT, weight = lit Some (3/100),
                value' = float_min (Finite 1000) (Finite 1)\<rparr>,
              \<lparr>factor = USER_FEEDBACK, weight = lit Some (2/100), value' = Finite (1/2)\<rparr>]"
    and o: "overall_score r =
             float_min
               (float_max
                  (py_sum Some False
                     (map (\<lambda>c. fmul Some (value' c) (weight c)) (components r)))
                  (Finite 0))
               (Finite 1)"
    by blast
  have v: "value' (components r ! 5) = Finite 1"
    unfolding cs by (simp add: float_min_def)
  have "overall_score r = Finite 1"
    unfolding o cs
    by (simp add: lit_def fl_def float_min_def float_max_def py_sum_def
          score_source_reliability_def QualityScorer_init_def)
  with w f c t r v show ?thesis by blast
qed

text \<open>
  A NaN among the summands makes the sum NaN, whatever the rounding and with or
  without compensation; so a NaN relevance score gives a NaN overall score whenever
  \<open>score_content\<close> returns.
\<close>

lemma fadd_nan_right: "fadd rnd a NaN = NaN"
  by (cases a) simp_all

lemma foldl_fadd_from_nan: "foldl (fadd rnd) NaN ps = NaN"
  by (induction ps) simp_all

lemma foldl_fadd_nan: "NaN \<in> set ps \<Longrightarrow> foldl (fadd rnd) a ps = NaN"
  by (induction ps arbitrary: a) (auto simp: fadd_nan_right foldl_fadd_from_nan)

lemma neumaier_from_nan: "neumaier rnd NaN c ps = NaN"
  by (induction ps arbitrary: c) (simp_all add: Let_def split: pyfloat.splits)

lemma neumaier_nan: "NaN \<in> set ps \<Longrightarrow> neumaier rnd f c ps = NaN"
  by (induction ps arbitrary: f c) (auto simp: Let_def fadd_nan_right neumaier_from_nan)

lemma py_sum_nan: "NaN \<in> set ps \<Longrightarrow> py_sum rnd compensated ps = NaN"
  by (cases ps) (auto simp: py_sum_def foldl_fadd_nan neumaier_nan foldl_fadd_from_nan
        neumaier_from_nan)

lemma score_content_nan_relevance:
  assumes "score_content rnd compensated s now content stype created NaN completeness accuracy
             citation_count user_feedback = Inr r"
  shows "overall_score r = NaN"
  using assms
  by (auto simp: score_content_def py_bind_def Let_def calculate_def py_sum_nan clamp_nan
           split: sum.splits)

text \<open>
  The claim as stated, for every combination of inputs, fails when a factor score is
  NaN: the sum is NaN, every comparison of the clamp is then false and the overall
  score is NaN, with either way of summing.
\<close>

theorem score_content_nan_counterexample:
  "map_sum id overall_score
     (score_content Some False QualityScorer_init 0 ''four words of text'' ''memory'' 0
        NaN (Finite (1/2)) (Finite (1/2)) 0 (Finite (1/2)))
   = Inr NaN \<and>
   map_sum id overall_score
     (score_content Some True QualityScorer_init 0 ''four words of text'' ''memory'' 0
        NaN (Finite (1/2)) (Finite (1/2)) 0 (Finite (1/2)))
   = Inr NaN"
  by (simp add: score_content_def weight_of_def py_bind_def Let_def calculate_def
        QualityScorer_init_def score_freshness_float_def days_old_def score_completeness_def
        words4 int_truediv_def lit_def fl_def float_min_def float_max_def py_sum_def
        score_source_reliability_def fsub_def fge_def)

text \<open>
  A citation count whose tenth is beyond the floats makes the division raise, once the
  five components before it have been built.
\<close>

lemma score_content_citation_overflow:
  assumes "map_of (factor_weights s) SOURCE_RELIABILITY = Some w1"
    and "map_of (factor_weights s) CONTENT_FRESHNESS = Some w2"
    and "map_of (factor_weights s) RELEVANCE = Some w3"
    and "map_of (factor_weights s) COMPLETENESS = Some w4"
    and "map_of (factor_weights s) ACCURACY = Some w5"
    and "score_freshness_float rnd now created = Inr fresh"
    and "score_completeness rnd content completeness = Inr compl"
    and "rnd (real_of_int citation_count / 10) = None"
  shows "score_content rnd compensated s now content stype created relevance
           completeness accuracy citation_count user_feedback = Inl OverflowError"
  using assms
  by (simp add: score_content_def weight_of_def py_bind_def Let_def int_truediv_def)


section \<open>Properties of the router\<close>

subsection \<open>Source lookup\<close>

lemma py_max_in: "py_max key b xs \<in> set (b # xs)"
  by (induction xs arbitrary: b) auto

lemma get_source_by_type_registered:
  assumes "get_source_by_type r t = Some x"
  shows "\<exists>info. (x, info) \<in> set (registered_sources r) \<and> type info = t"
proof -
  let ?cands = "map (\<lambda>(source_id, info). (source_id, priority info))
              (filter (\<lambda>(source_id, info). type info = t) (registered_sources r))"
  from assms obtain c cs where cs: "?cands = c # cs" and x: "x = fst (py_max snd c cs)"
    by (auto simp: get_source_by_type_def Let_def split: list.splits)
  have "py_max snd c cs \<in> set ?cands" unfolding cs by (rule py_max_in)
  then show ?thesis unfolding x by auto
qed

lemma memory_web_differ:
  assumes d: "distinct (map fst (registered_sources r))"
    and m: "get_source_by_type r ''memory'' = Some m"
    and e: "get_source_by_type r ''web_search'' = Some e"
  shows "m \<noteq> e"
proof
  assume eq: "m = e"
  from get_source_by_type_registered[OF m] obtain i1 where
    i1: "(m, i1) \<in> set (registered_sources r)" "type i1 = ''memory''" by blast
  from get_source_by_type_registered[OF e] obtain i2 where
    i2: "(e, i2) \<in> set (registered_sources r)" "type i2 = ''web_search''" by blast
  from d i1(1) i2(1) eq have "i1 = i2" by (metis eq_key_imp_eq_value)
  with i1(2) i2(2) show False by simp
qed

text \<open>The registry is a dictionary: its keys stay distinct under registration.\<close>

lemma ContentRouter_init_distinct:
  "distinct (map fst (registered_sources (ContentRouter_init d)))"
  by (simp add: ContentRouter_init_def)

lemma register_source_distinct:
  "distinct (map fst (registered_sources r)) \<Longrightarrow>
   distinct (map fst (registered_sources (register_source i t h p n r)))"
  by (simp add: register_source_def distinct_update)

lemma route_request_registry:
  "registered_sources (snd (route_request r q strat now)) = registered_sources r"
  by (simp add: route_request_def Let_def log_routing_decision_def)

subsection \<open>Memory-first\<close>

text \<open>
  With a memory source and a web-search source looked up under non-empty ids, the
  selection is the memory id followed by the web id, at expected quality 0.8.
\<close>

lemma route_memory_first_both:
  assumes "get_source_by_type r ''memory'' = Some m" "m \<noteq> []"
    and "get_source_by_type r ''web_search'' = Some e" "e \<noteq> []"
  shows "route_memory_first r q =
           \<lparr> strategy = MEMORY_FIRST, sources_to_query = [m, e], expected_quality = 0.8,
             reasoning = ''Memory-first strategy: querying memory first, with web fallback'' \<rparr>"
  using assms by (simp add: route_memory_first_def Let_def if_truthy_def)

lemma route_memory_first_no_memory:
  assumes "get_source_by_type r ''memory'' = None"
  shows "route_memory_first r q =
           (case get_source_by_type r ''web_search'' of
              None \<Rightarrow> \<lparr> strategy = MEMORY_FIRST, sources_to_query = [], expected_quality = 0.5,
                         reasoning = ''Memory-first strategy: '' \<rparr>
            | Some e \<Rightarrow>
                if e \<noteq> []
                then \<lparr> strategy = MEMORY_FIRST, sources_to_query = [e], expected_quality = 0.8,
                       reasoning = ''No memory source available, using web search'' \<rparr>
                else \<lparr> strategy = MEMORY_FIRST, sources_to_query = [], expected_quality = 0.5,
                       reasoning = ''Memory-first strategy: '' \<rparr>)"
  using assms by (simp add: route_memory_first_def Let_def if_truthy_def split: option.splits)

lemma route_memory_first_expected_quality:
  "expected_quality (route_memory_first r q) =
     (if length (sources_to_query (route_memory_first r q)) \<ge> 1 then 0.8 else 0.5)"
  by (simp add: route_memory_first_def Let_def split: prod.splits)

text \<open>
  C5. Claimed: with a memory source and a web-search source registered, memory-first
  selects the memory id and then the web id. The handler tests the looked-up id with
  \<open>if memory_source:\<close>, which is false for \<open>None\<close> and for the empty string alike. With a
  memory source registered under the empty id and a web-search source under \<open>web\<close>,
  both lookups succeed, yet the handler takes the branch for a missing memory source:
  it selects the web source alone and reports that no memory source is available.
\<close>

theorem route_memory_first_empty_memory_id:
  "get_source_by_type
     (register_source ''web'' ''web_search'' () 5 0
        (register_source '''' ''memory'' () 10 0
           (ContentRouter_init ''memory_first'')))
     ''memory'' = Some '''' \<and>
   get_source_by_type
     (register_source ''web'' ''web_search'' () 5 0
        (register_source '''' ''memory'' () 10 0
           (ContentRouter_init ''memory_first'')))
     ''web_search'' = Some ''web'' \<and>
   route_memory_first
     (register_source ''web'' ''web_search'' () 5 0
        (register_source '''' ''memory'' () 10 0
           (ContentRouter_init ''memory_first'')))
     ''test query''
   = \<lparr> strategy = MEMORY_FIRST, sources_to_query = [''web''], expected_quality = 0.8,
       reasoning = ''No memory source available, using web search'' \<rparr>"
  by (simp add: route_memory_first_def get_source_by_type_def register_source_def
        ContentRouter_init_def if_truthy_def Let_def)

subsection \<open>Dispatch\<close>

text \<open>
  C6, as the code has it. A strategy argument that is a non-empty string other than the
  five values raises \<open>ValueError\<close> at once: nothing is logged and the router is left as it
  was. A falsy argument, \<open>None\<close> or the empty string, is replaced by the router's default
  strategy before the dispatch. Each of the five values is dispatched to its handler,
  whose decision is returned and appended to the decision log.
\<close>

theorem route_request_dispatch:
  "(strat \<noteq> [] \<and>
    strat \<notin> set [''memory_first'', ''external_first'', ''balanced'', ''memory_only'',
                  ''external_only''] \<longrightarrow>
      route_request r q (Some strat) now
        = (Inl (ValueError (''Unknown routing strategy: '' @ strat)), r)) \<and>
   route_request r q None now = route_request r q (Some (default_strategy r)) now \<and>
   route_request r q (Some '''') now = route_request r q (Some (default_strategy r)) now \<and>
   route_request r q (Some ''memory_first'') now
     = (Inr (route_memory_first r q), log_routing_decision (route_memory_first r q) q now r) \<and>
   route_request r q (Some ''external_first'') now
     = (Inr (route_external_first r q),
        log_routing_decision (route_external_first r q) q now r) \<and>
   route_request r q (Some ''balanced'') now
     = (Inr (route_balanced r q), log_routing_decision (route_balanced r q) q now r) \<and>
   route_request r q (Some ''memory_only'') now
     = (Inr (route_memory_only r q), log_routing_decision (route_memory_only r q) q now r) \<and>
   route_request r q (Some ''external_only'') now
     = (Inr (route_external_only r q),
        log_routing_decision (route_external_only r q) q now r)"
  by (simp add: route_request_def Let_def if_truthy_def)

theorem route_request_dispatch_witness:
  "''bogus'' \<noteq> [] \<and>
   ''bogus'' \<notin> set [''memory_first'', ''external_first'', ''balanced'', ''memory_only'',
                  ''external_only''] \<and>
   route_request (ContentRouter_init ''memory_first'' :: unit ContentRouter) ''test query''
       (Some ''bogus'') 0
     = (Inl (ValueError ''Unknown routing strategy: bogus''),
        ContentRouter_init ''memory_first'')"
  using route_request_dispatch
          [of "''bogus''" "ContentRouter_init ''memory_first'' :: unit ContentRouter"
              "''test query''" 0]
  by simp

text \<open>
  The claim as stated fails at the empty string, which is none of the five strategies:
  on a router whose default is memory-first the call returns a decision.
\<close>

theorem route_request_empty_strategy_counterexample:
  "fst (route_request
     (register_source ''web'' ''web_search'' () 5 0
        (register_source ''memory'' ''memory'' () 10 0
           (ContentRouter_init ''memory_first'')))
     ''test query'' (Some '''') 0)
   = Inr \<lparr> strategy = MEMORY_FIRST, sources_to_query = [''memory'', ''web''],
           expected_quality = 0.8,
           reasoning = ''Memory-first strategy: querying memory first, with web fallback'' \<rparr>"
  by (simp add: route_request_def route_memory_first_def get_source_by_type_def
        register_source_def ContentRouter_init_def if_truthy_def Let_def)

subsection \<open>No source is selected twice\<close>

lemma route_memory_first_distinct:
  "distinct (map fst (registered_sources r)) \<Longrightarrow>
   distinct (sources_to_query (route_memory_first r q))"
  by (auto simp: route_memory_first_def Let_def if_truthy_def split: option.splits
           dest: memory_web_differ)

lemma route_external_first_distinct:
  "distinct (map fst (registered_sources r)) \<Longrightarrow>
   distinct (sources_to_query (route_external_first r q))"
  by (auto simp: route_external_first_def Let_def if_truthy_def split: option.splits
           dest: memory_web_differ)

lemma route_balanced_distinct:
  "distinct (map fst (registered_sources r)) \<Longrightarrow>
   distinct (sources_to_query (route_balanced r q))"
  by (simp add: route_balanced_def Let_def)

lemma route_memory_only_distinct: "distinct (sources_to_query (route_memory_only r q))"
  by (simp add: route_memory_only_def Let_def if_truthy_def split: option.splits)

lemma route_external_only_distinct: "distinct (sources_to_query (route_external_only r q))"
  by (simp add: route_external_only_def Let_def if_truthy_def split: option.splits)

text \<open>
  C10. In a router whose registry has distinct keys (it is a dictionary: the fresh
  router has none and registration keeps them distinct), every decision that
  \<open>route_request\<close> returns, under whichever strategy, lists no source id twice.
\<close>

theorem route_request_sources_distinct:
  assumes "distinct (map fst (registered_sources r))"
    and "route_request r q strat now = (Inr d, r')"
  shows "distinct (sources_to_query d)"
  using assms route_memory_first_distinct[of r q] route_external_first_distinct[of r q]
    route_balanced_distinct[of r q] route_memory_only_distinct[of r q]
    route_external_only_distinct[of r q]
  by (auto simp: route_request_def Let_def split: if_splits)

lemma py_str_2: "py_str 2 = ''2''" "py_str (Suc (Suc 0)) = ''2''"
  by code_simp+

theorem route_request_sources_distinct_witness:
  "distinct (map fst (registered_sources
     (register_source ''web'' ''web_search'' () 5 0
        (register_source ''memory'' ''memory'' () 10 0
           (ContentRouter_init ''memory_first''))))) \<and>
   route_request
     (register_source ''web'' ''web_search'' () 5 0
        (register_source ''memory'' ''memory'' () 10 0
           (ContentRouter_init ''memory_first'')))
     ''test query'' (Some ''external_first'') 0
   = (Inr \<lparr> strategy = EXTERNAL_FIRST, sources_to_query = [''web'', ''memory''],
            expected_quality = 0.85,
            reasoning = ''External-first strategy: querying 2 sources'' \<rparr>,
      log_routing_decision
        \<lparr> strategy = EXTERNAL_FIRST, sources_to_query = [''web'', ''memory''],
          expected_quality = 0.85,
          reasoning = ''External-first strategy: querying 2 sources'' \<rparr>
        ''test query'' 0
     (register_source ''web'' ''web_search'' () 5 0
        (register_source ''memory'' ''memory'' () 10 0
           (ContentRouter_init ''memory_first'')))) \<and>
   distinct (sources_to_query
     \<lparr> strategy = EXTERNAL_FIRST, sources_to_query = [''web'', ''memory''],
       expected_quality = 0.85,
       reasoning = ''External-first strategy: querying 2 sources'' \<rparr>)"
proof -
  let ?r = "(register_source ''web'' ''web_search'' () 5 0
        (register_source ''memory'' ''memory'' () 10 0
           (ContentRouter_init ''memory_first''))) :: unit ContentRouter"
  let ?d = "\<lparr> strategy = EXTERNAL_FIRST, sources_to_query = [''web'', ''memory''],
              expected_quality = 0.85,
              reasoning = ''External-first strategy: querying 2 sources'' \<rparr>"
  have h1: "distinct (map fst (registered_sources ?r))"
    by (simp add: register_source_def ContentRouter_init_def)
  have e: "route_external_first ?r ''test query'' = ?d"
    by (simp add: route_external_first_def get_source_by_type_def register_source_def
          ContentRouter_init_def if_truthy_def Let_def py_str_2)
  have h2: "route_request ?r ''test query'' (Some ''external_first'') 0
              = (Inr ?d, log_routing_decision ?d ''test query'' 0 ?r)"
    unfolding e[symmetric] by (simp add: route_request_def Let_def if_truthy_def)
  from route_request_sources_distinct[OF h1 h2] h1 h2 show ?thesis by blast
qed

section \<open>Properties of the synthesis\<close>

subsection \<open>Sources\<close>

lemma synthesize_content_nonempty:
  "blocks \<noteq> [] \<Longrightarrow>
   synthesize_content q blocks stamp now
     = Inl (TypeError (''unhashable type: '' @ [CHR 0x27] @ ''ContentSource'' @ [CHR 0x27]))"
  by (cases blocks) (simp_all add: synthesize_content_def set_of_sources_def Let_def)

text \<open>
  C2. Claimed: the synthesis returns with \<open>sources\<close> the distinct sources of the blocks,
  of length 2 for two blocks from distinct sources. On the two blocks of the
  repository's own test \<open>test_content_aggregation\<close>, which expects two sources, the
  synthesis returns nothing: building the set of sources raises \<open>TypeError\<close>.
\<close>

theorem synthesize_content_unhashable_source:
  "synthesize_content ''test query''
     [\<lparr> content_id = ''block1'',
        source = \<lparr> source_id = ''src1'', source_type = ''memory'', name = ''Memory Source'',
                   quality_score = 0.95, confidence_score = 0.9, last_updated = 0,
                   metadata = () \<rparr>,
        title = Some ''Memory Content'', body = ''Content from memory'', summary = None,
        keywords' = [], relevance_score = 9/10, created_at = 0, updated_at = 0 \<rparr>,
      \<lparr> content_id = ''block2'',
        source = \<lparr> source_id = ''src2'', source_type = ''web_search'', name = ''Web Source'',
                   quality_score = 0.85, confidence_score = 0.8, last_updated = 0,
                   metadata = () \<rparr>,
        title = Some ''Web Content'', body = ''Content from web'', summary = None,
        keywords' = [], relevance_score = 8/10, created_at = 0, updated_at = 0 \<rparr>]
     ''0.0'' 0
   = Inl (TypeError (''unhashable type: '' @ [CHR 0x27] @ ''ContentSource'' @ [CHR 0x27]))"
  by (simp add: synthesize_content_def set_of_sources_def Let_def)

subsection \<open>Empty input\<close>

text \<open>
  C7. On an empty block sequence the synthesis returns normally, for every query: the
  aggregated content is the empty string, the quality score is 0 and \<open>gaps\<close> contains
  the entry \<open>No content available for query\<close>.
\<close>

theorem synthesize_empty:
  "\<exists>res. synthesize_content q ([] :: 'm ContentBlock list) stamp now = Inr res \<and>
         aggregated_content res = '''' \<and>
         quality_score res = 0 \<and>
         ''No content available for query'' \<in> set (gaps res)"
  by (simp add: synthesize_content_def set_of_sources_def Let_def aggregate_content_def
        identify_gaps_def)

subsection \<open>Aggregation\<close>






end
